theory Spec2Isabelle
  imports Complex_Main
begin

section \<open>Python values, errors and built-ins\<close>

text \<open>
  The three modules are dynamically typed Python. The constructors of
  \<^verbatim>\<open>models.py\<close> receive raw field values (strings from \<^verbatim>\<open>csv.reader\<close>,
  JSON scalars from \<^verbatim>\<open>json.load\<close>, or whatever a direct caller passes as a
  keyword argument), so raw values are modelled by a small universe of Python
  scalars. A float is not-a-number, an infinity, or finite; the finite ones
  are carried by \<open>real\<close> since no arithmetic is done on them here.
\<close>

datatype error =
  KeyError | ValueError | IndexError | TypeError | AttributeError | StopIteration

datatype pyfloat = NaN | PosInf | NegInf | Fin real

record datetime =
  year :: nat
  month :: nat
  day :: nat
  hour :: nat
  minute :: nat
  second :: nat
  microsecond :: nat

datatype pyval =
  PNone | PBool bool | PFloat pyfloat | PStr string | PDatetime datetime

text \<open>Python truth value testing, as used by \<^verbatim>\<open>not x\<close>.\<close>

fun truthy :: "pyval \<Rightarrow> bool" where
  "truthy PNone = False"
| "truthy (PBool b) = b"
| "truthy (PFloat x) = (x \<noteq> Fin 0)"
| "truthy (PStr s) = (s \<noteq> [])"
| "truthy (PDatetime d) = True"

text \<open>\<^verbatim>\<open>x == 'literal'\<close>: among these values only the same string is equal to a string.\<close>

definition eq_str :: "pyval \<Rightarrow> string \<Rightarrow> bool" where
  "eq_str v s = (v = PStr s)"

text \<open>
  The built-in \<^verbatim>\<open>float(x)\<close>. Parsing the text of a string is left to the
  parameter \<open>sf\<close> (\<open>None\<close> where Python raises \<^verbatim>\<open>ValueError\<close>).
\<close>

fun py_float :: "(string \<Rightarrow> pyfloat option) \<Rightarrow> pyval \<Rightarrow> error + pyfloat" where
  "py_float sf PNone = Inl TypeError"
| "py_float sf (PBool b) = Inr (Fin (if b then 1 else 0))"
| "py_float sf (PFloat x) = Inr x"
| "py_float sf (PStr s) = (case sf s of None \<Rightarrow> Inl ValueError | Some x \<Rightarrow> Inr x)"
| "py_float sf (PDatetime d) = Inl TypeError"

text \<open>Zero-padded decimal digits, as \<^verbatim>\<open>%02d\<close>, \<^verbatim>\<open>%04d\<close> and \<^verbatim>\<open>%06d\<close> print them.\<close>

fun pad :: "nat \<Rightarrow> nat \<Rightarrow> string" where
  "pad 0 n = []"
| "pad (Suc w) n = pad w (n div 10) @ [''0123456789'' ! (n mod 10)]"

text \<open>
  \<^verbatim>\<open>str(dt)\<close> of a \<^verbatim>\<open>datetime\<close> without time zone: \<^verbatim>\<open>dt.isoformat(sep=' ')\<close>, which
  always prints the seconds and prints the microseconds when they are not zero.
\<close>

definition datetime_str :: "datetime \<Rightarrow> string" where
  "datetime_str d =
     pad 4 (year d) @ ''-'' @ pad 2 (month d) @ ''-'' @ pad 2 (day d) @ '' '' @
     pad 2 (hour d) @ '':'' @ pad 2 (minute d) @ '':'' @ pad 2 (second d) @
     (if microsecond d = 0 then [] else ''.'' @ pad 6 (microsecond d))"

text \<open>
  \<^verbatim>\<open>str(x)\<close> of a float: the three special values print as below, the shortest
  round-trip decimal of a finite float is the parameter \<open>rf\<close>.
\<close>

fun float_str :: "(real \<Rightarrow> string) \<Rightarrow> pyfloat \<Rightarrow> string" where
  "float_str rf NaN = ''nan''"
| "float_str rf PosInf = ''inf''"
| "float_str rf NegInf = ''-inf''"
| "float_str rf (Fin x) = rf x"

text \<open>The built-in \<^verbatim>\<open>str(x)\<close>, which is also what an f-string field \<^verbatim>\<open>{x}\<close> prints.\<close>

fun py_str :: "(real \<Rightarrow> string) \<Rightarrow> pyval \<Rightarrow> string" where
  "py_str rf PNone = ''None''"
| "py_str rf (PBool b) = (if b then ''True'' else ''False'')"
| "py_str rf (PFloat x) = float_str rf x"
| "py_str rf (PStr s) = s"
| "py_str rf (PDatetime d) = datetime_str d"

section \<open>The helpers module\<close>

text \<open>
  \<^verbatim>\<open>models.py\<close> and \<^verbatim>\<open>write.py\<close> import \<^verbatim>\<open>cd_to_datetime\<close> and \<^verbatim>\<open>datetime_to_str\<close> from
  \<^verbatim>\<open>helpers.py\<close>, which is not among the sources. The functions of the three
  modules take the two helpers as parameters: \<open>cd\<close>, from a raw value to a
  timestamp, to null, or to an exception, and \<open>dts\<close>, from the value of the
  attribute \<^verbatim>\<open>time\<close> to the value it returns or the exception it raises.
\<close>

type_synonym cd_helper = "pyval \<Rightarrow> error + datetime option"

type_synonym dts_helper = "datetime option \<Rightarrow> error + pyval"

text \<open>
  Modelled from the spec: \<^verbatim>\<open>helpers.cd_to_datetime\<close> is imported by \<^verbatim>\<open>models.py\<close>
  but \<^verbatim>\<open>helpers.py\<close> is not among the sources. The spec (4.1) says of it:
  "Approach time: parsed from a fixed textual calendar format into a timestamp;
  missing/unparseable \<rightarrow> null". The calendar format itself is not named by the
  spec and is the parameter \<open>parse_cd\<close>, which gives \<open>None\<close> on text that is not
  in the format; a value that is not text is unparseable.
\<close>

definition cd_to_datetime :: "(string \<Rightarrow> datetime option) \<Rightarrow> cd_helper" where
  "cd_to_datetime parse_cd v = Inr (case v of PStr s \<Rightarrow> parse_cd s | _ \<Rightarrow> None)"

text \<open>
  Modelled from the spec: \<^verbatim>\<open>helpers.datetime_to_str\<close> is imported by \<^verbatim>\<open>models.py\<close>
  and \<^verbatim>\<open>write.py\<close> but is not among the sources. The spec (6) says: "A canonical
  time-to-string formatter yields a fixed minute-precision format (no seconds)"
  and, of the JSON output, "\<^verbatim>\<open>datetime_utc\<close> (formatted string, or omitted/null if
  time absent)". The layout of the minute-precision format is the parameter
  \<open>fmt\<close>.
\<close>

definition datetime_to_str :: "(datetime \<Rightarrow> string) \<Rightarrow> dts_helper" where
  "datetime_to_str fmt t = Inr (case t of None \<Rightarrow> PNone | Some d \<Rightarrow> PStr (fmt d))"

section \<open>models.py\<close>

text \<open>
  \<^verbatim>\<open>NearEarthObject\<close>. The collection \<open>approaches\<close> refers back to approaches,
  which in turn refer to their object; the cycle is cut by holding handles
  (positions in the approach collection) on the object side.
\<close>

record NearEarthObject =
  designation :: pyval
  name :: pyval
  diameter :: pyfloat
  hazardous :: bool
  approaches :: "nat list"

text \<open>
  \<^verbatim>\<open>NearEarthObject.__init__(self, **info)\<close>. The keyword arguments are a
  dictionary; reading a key that was not passed raises \<^verbatim>\<open>KeyError\<close>. The four
  attribute assignments run in source order, so a failing \<^verbatim>\<open>float(...)\<close> is
  raised before \<^verbatim>\<open>info['hazardous']\<close> is read.
\<close>

definition NearEarthObject_init ::
  "(string \<Rightarrow> pyfloat option) \<Rightarrow> (string \<rightharpoonup> pyval) \<Rightarrow> error + NearEarthObject" where
  "NearEarthObject_init sf info =
     (case info ''designation'' of None \<Rightarrow> Inl KeyError | Some des \<Rightarrow>
      case info ''name'' of None \<Rightarrow> Inl KeyError | Some nm \<Rightarrow>
      case info ''diameter'' of None \<Rightarrow> Inl KeyError | Some dia \<Rightarrow>
      case (if \<not> truthy dia \<or> eq_str dia '''' then Inr NaN else py_float sf dia) of
        Inl e \<Rightarrow> Inl e | Inr d \<Rightarrow>
      case info ''hazardous'' of None \<Rightarrow> Inl KeyError | Some hz \<Rightarrow>
      Inr \<lparr>designation = (if \<not> truthy des then PStr '''' else des),
           name = (if \<not> truthy nm \<or> eq_str nm '''' then PNone else nm),
           diameter = d,
           hazardous = (if eq_str hz ''Y'' then True else False),
           approaches = []\<rparr>)"

text \<open>The property \<^verbatim>\<open>fullname\<close>: \<^verbatim>\<open>f"{self.designation} ({self.name})"\<close>.\<close>

definition fullname :: "(real \<Rightarrow> string) \<Rightarrow> NearEarthObject \<Rightarrow> string" where
  "fullname rf n = py_str rf (designation n) @ '' ('' @ py_str rf (name n) @ '')''"

text \<open>
  \<^verbatim>\<open>CloseApproach\<close>. The attribute \<^verbatim>\<open>_designation\<close> is written \<open>designation'\<close>;
  \<open>neo\<close> is \<open>None\<close> until a database links the approach.
\<close>

record CloseApproach =
  designation' :: pyval
  time :: "datetime option"
  distance :: pyfloat
  velocity :: pyfloat
  neo :: "NearEarthObject option"

text \<open>
  \<^verbatim>\<open>CloseApproach.__init__(self, **info)\<close>. The helper is called only on a raw
  time that is truthy; an exception it raises leaves the constructor, which
  has no handler.
\<close>

definition CloseApproach_init ::
  "(string \<Rightarrow> pyfloat option) \<Rightarrow> cd_helper \<Rightarrow> (string \<rightharpoonup> pyval) \<Rightarrow> error + CloseApproach" where
  "CloseApproach_init sf cd info =
     (case info ''designation'' of None \<Rightarrow> Inl KeyError | Some des \<Rightarrow>
      case info ''time'' of None \<Rightarrow> Inl KeyError | Some tm \<Rightarrow>
      case (if \<not> truthy tm then Inr None else cd tm) of
        Inl e \<Rightarrow> Inl e | Inr t \<Rightarrow>
      case info ''distance'' of None \<Rightarrow> Inl KeyError | Some dst \<Rightarrow>
      case (if \<not> truthy dst then Inr (Fin 0) else py_float sf dst) of
        Inl e \<Rightarrow> Inl e | Inr d \<Rightarrow>
      case info ''velocity'' of None \<Rightarrow> Inl KeyError | Some vel \<Rightarrow>
      case (if \<not> truthy vel then Inr (Fin 0) else py_float sf vel) of
        Inl e \<Rightarrow> Inl e | Inr v \<Rightarrow>
      Inr \<lparr>designation' = (if \<not> truthy des then PStr '''' else des),
           time = t,
           distance = d,
           velocity = v,
           neo = None\<rparr>)"

text \<open>The property \<^verbatim>\<open>time_str\<close>: \<^verbatim>\<open>datetime_to_str(self.time)\<close>.\<close>

definition time_str :: "dts_helper \<Rightarrow> CloseApproach \<Rightarrow> error + pyval" where
  "time_str dts ca = dts (time ca)"

section \<open>extract.py\<close>

text \<open>\<^verbatim>\<open>xs.index(x)\<close>: the first position of \<open>x\<close>, \<^verbatim>\<open>ValueError\<close> when there is none.\<close>

fun index_of :: "'a list \<Rightarrow> 'a \<Rightarrow> error + nat" where
  "index_of [] x = Inl ValueError"
| "index_of (y # ys) x =
     (if y = x then Inr 0
      else case index_of ys x of Inl e \<Rightarrow> Inl e | Inr i \<Rightarrow> Inr (Suc i))"

text \<open>\<^verbatim>\<open>xs[i]\<close> for an index that is not negative: \<^verbatim>\<open>IndexError\<close> past the end.\<close>

definition getitem :: "'a list \<Rightarrow> nat \<Rightarrow> error + 'a" where
  "getitem xs i = (if i < length xs then Inr (xs ! i) else Inl IndexError)"

text \<open>
  The loop of \<^verbatim>\<open>load_neos\<close> over the rows that follow the header. The keyword
  arguments are evaluated in the order they are written (designation, name,
  diameter, hazardous); an exception in any row leaves the function without a
  result.
\<close>

fun neo_rows ::
  "(string \<Rightarrow> pyfloat option) \<Rightarrow> nat \<Rightarrow> nat \<Rightarrow> nat \<Rightarrow> nat \<Rightarrow> string list list
     \<Rightarrow> error + NearEarthObject list" where
  "neo_rows sf i_pdes i_name i_pha i_diameter [] = Inr []"
| "neo_rows sf i_pdes i_name i_pha i_diameter (row # rows) =
     (case getitem row i_pdes of Inl e \<Rightarrow> Inl e | Inr c_pdes \<Rightarrow>
      case getitem row i_name of Inl e \<Rightarrow> Inl e | Inr c_name \<Rightarrow>
      case getitem row i_diameter of Inl e \<Rightarrow> Inl e | Inr c_diameter \<Rightarrow>
      case getitem row i_pha of Inl e \<Rightarrow> Inl e | Inr c_pha \<Rightarrow>
      case NearEarthObject_init sf
             [''designation'' \<mapsto> PStr c_pdes, ''name'' \<mapsto> PStr c_name,
              ''diameter'' \<mapsto> PStr c_diameter, ''hazardous'' \<mapsto> PStr c_pha] of
        Inl e \<Rightarrow> Inl e | Inr n \<Rightarrow>
      case neo_rows sf i_pdes i_name i_pha i_diameter rows of
        Inl e \<Rightarrow> Inl e | Inr ns \<Rightarrow> Inr (n # ns))"

text \<open>
  \<^verbatim>\<open>load_neos\<close>, on the rows \<^verbatim>\<open>csv.reader\<close> yields for the file (each a list of
  strings). \<^verbatim>\<open>next(reader)\<close> on a file without rows raises \<^verbatim>\<open>StopIteration\<close>.
  The dictionary comprehension looks the four names up in the header in the
  order \<^verbatim>\<open>'pdes', 'name', 'pha', 'diameter'\<close>, before any row is read.
\<close>

definition load_neos ::
  "(string \<Rightarrow> pyfloat option) \<Rightarrow> string list list \<Rightarrow> error + NearEarthObject list" where
  "load_neos sf reader =
     (case reader of [] \<Rightarrow> Inl StopIteration | header # rows \<Rightarrow>
      case index_of header ''pdes'' of Inl e \<Rightarrow> Inl e | Inr i_pdes \<Rightarrow>
      case index_of header ''name'' of Inl e \<Rightarrow> Inl e | Inr i_name \<Rightarrow>
      case index_of header ''pha'' of Inl e \<Rightarrow> Inl e | Inr i_pha \<Rightarrow>
      case index_of header ''diameter'' of Inl e \<Rightarrow> Inl e | Inr i_diameter \<Rightarrow>
      neo_rows sf i_pdes i_name i_pha i_diameter rows)"

text \<open>
  The document \<^verbatim>\<open>json.load\<close> returns for the close-approach file, in the shape
  the loader reads it: an object with a \<^verbatim>\<open>fields\<close> array of column names and a
  \<^verbatim>\<open>data\<close> array whose entries are arrays of scalars (\<open>cad_fields\<close> is
  \<^verbatim>\<open>jsonData['fields']\<close>, \<open>cad_data\<close> is \<^verbatim>\<open>jsonData['data']\<close>).
\<close>

record cad_json =
  cad_fields :: "string list"
  cad_data :: "pyval list list"

text \<open>The list comprehension of \<^verbatim>\<open>load_approaches\<close> over the \<^verbatim>\<open>data\<close> array.\<close>

fun approach_items ::
  "(string \<Rightarrow> pyfloat option) \<Rightarrow> cd_helper \<Rightarrow> nat \<Rightarrow> nat \<Rightarrow> nat \<Rightarrow> nat
     \<Rightarrow> pyval list list \<Rightarrow> error + CloseApproach list" where
  "approach_items sf cd i_des i_cd i_dist i_v_rel [] = Inr []"
| "approach_items sf cd i_des i_cd i_dist i_v_rel (item # items) =
     (case getitem item i_des of Inl e \<Rightarrow> Inl e | Inr c_des \<Rightarrow>
      case getitem item i_cd of Inl e \<Rightarrow> Inl e | Inr c_cd \<Rightarrow>
      case getitem item i_dist of Inl e \<Rightarrow> Inl e | Inr c_dist \<Rightarrow>
      case getitem item i_v_rel of Inl e \<Rightarrow> Inl e | Inr c_v_rel \<Rightarrow>
      case CloseApproach_init sf cd
             [''designation'' \<mapsto> c_des, ''time'' \<mapsto> c_cd,
              ''distance'' \<mapsto> c_dist, ''velocity'' \<mapsto> c_v_rel] of
        Inl e \<Rightarrow> Inl e | Inr ca \<Rightarrow>
      case approach_items sf cd i_des i_cd i_dist i_v_rel items of
        Inl e \<Rightarrow> Inl e | Inr cas \<Rightarrow> Inr (ca # cas))"

definition load_approaches ::
  "(string \<Rightarrow> pyfloat option) \<Rightarrow> cd_helper \<Rightarrow> cad_json \<Rightarrow> error + CloseApproach list" where
  "load_approaches sf cd jsonData =
     (case index_of (cad_fields jsonData) ''des'' of Inl e \<Rightarrow> Inl e | Inr i_des \<Rightarrow>
      case index_of (cad_fields jsonData) ''cd'' of Inl e \<Rightarrow> Inl e | Inr i_cd \<Rightarrow>
      case index_of (cad_fields jsonData) ''dist'' of Inl e \<Rightarrow> Inl e | Inr i_dist \<Rightarrow>
      case index_of (cad_fields jsonData) ''v_rel'' of Inl e \<Rightarrow> Inl e | Inr i_v_rel \<Rightarrow>
      approach_items sf cd i_des i_cd i_dist i_v_rel (cad_data jsonData))"

section \<open>write.py\<close>

definition fieldnames :: "string list" where
  "fieldnames =
     [''datetime_utc'', ''distance_au'', ''velocity_km_s'',
      ''designation'', ''name'', ''diameter_km'', ''potentially_hazardous'']"

text \<open>
  \<^verbatim>\<open>csv.writer.writerow\<close>: \<^verbatim>\<open>None\<close> is written as the empty field, a string as it
  is, every other value as \<^verbatim>\<open>str\<close> prints it. A written row is modelled by the
  list of its field texts (delimiters and quoting are the csv module's).
\<close>

definition csv_field :: "(real \<Rightarrow> string) \<Rightarrow> pyval \<Rightarrow> string" where
  "csv_field rf v = (case v of PNone \<Rightarrow> [] | _ \<Rightarrow> py_str rf v)"

definition writerow :: "(real \<Rightarrow> string) \<Rightarrow> pyval list \<Rightarrow> string list" where
  "writerow rf cells = map (csv_field rf) cells"

text \<open>The value of the attribute \<^verbatim>\<open>time\<close>: \<^verbatim>\<open>None\<close> or a \<^verbatim>\<open>datetime\<close> object.\<close>

definition time_value :: "datetime option \<Rightarrow> pyval" where
  "time_value t = (case t of None \<Rightarrow> PNone | Some d \<Rightarrow> PDatetime d)"

text \<open>
  The loop of \<^verbatim>\<open>write_to_csv\<close>. The result is the rows written to the file and
  the exception that ended the loop, if any: rows are written one at a time,
  so the rows before a failing approach stay in the file. Reading
  \<^verbatim>\<open>closeApproach.neo.designation\<close> of an approach whose \<open>neo\<close> is \<^verbatim>\<open>None\<close> raises
  \<^verbatim>\<open>AttributeError\<close>.
\<close>

fun write_rows ::
  "(real \<Rightarrow> string) \<Rightarrow> CloseApproach list \<Rightarrow> string list list \<times> error option" where
  "write_rows rf [] = ([], None)"
| "write_rows rf (closeApproach # results) =
     (case neo closeApproach of
        None \<Rightarrow> ([], Some AttributeError)
      | Some n \<Rightarrow>
          (case write_rows rf results of (rows, e) \<Rightarrow>
             (writerow rf [time_value (time closeApproach),
                           PFloat (distance closeApproach),
                           PFloat (velocity closeApproach),
                           designation n,
                           name n,
                           PFloat (diameter n),
                           PBool (hazardous n)] # rows, e)))"

definition write_to_csv ::
  "(real \<Rightarrow> string) \<Rightarrow> CloseApproach list \<Rightarrow> string list list \<times> error option" where
  "write_to_csv rf results =
     (case write_rows rf results of (rows, e) \<Rightarrow>
        (writerow rf (map PStr fieldnames) # rows, e))"

text \<open>The value handed to \<^verbatim>\<open>json.dump\<close>: scalars and dictionaries in key order.\<close>

datatype jval = JVal pyval | JDict "(string \<times> jval) list"

text \<open>
  The dictionaries \<^verbatim>\<open>neo_dict\<close> and \<^verbatim>\<open>ApproachDict\<close> built in the loop of
  \<^verbatim>\<open>write_to_json\<close>; \<open>s\<close> is the value \<^verbatim>\<open>datetime_to_str(closeApproach.time)\<close>
  returned.
\<close>

definition neo_dict :: "(real \<Rightarrow> string) \<Rightarrow> NearEarthObject \<Rightarrow> jval" where
  "neo_dict rf n =
     JDict [(''designation'', JVal (PStr (py_str rf (designation n)))),
            (''name'', JVal (name n)),
            (''diameter_km'', JVal (PFloat (diameter n))),
            (''potentially_hazardous'', JVal (PBool (hazardous n)))]"

definition ApproachDict :: "pyval \<Rightarrow> CloseApproach \<Rightarrow> jval \<Rightarrow> jval" where
  "ApproachDict s closeApproach nd =
     JDict [(''datetime_utc'', JVal s),
            (''distance_au'', JVal (PFloat (distance closeApproach))),
            (''velocity_km_s'', JVal (PFloat (velocity closeApproach))),
            (''neo'', nd)]"

text \<open>
  The loop itself, which appends one \<^verbatim>\<open>ApproachDict\<close> per approach to the list
  \<^verbatim>\<open>Approachs\<close>; reading \<^verbatim>\<open>closeApproach.neo.designation\<close> of an unlinked approach
  raises \<^verbatim>\<open>AttributeError\<close>, and an exception of \<^verbatim>\<open>datetime_to_str\<close> leaves the
  loop.
\<close>

fun approach_dicts ::
  "(real \<Rightarrow> string) \<Rightarrow> dts_helper \<Rightarrow> CloseApproach list \<Rightarrow> error + jval list" where
  "approach_dicts rf dts [] = Inr []"
| "approach_dicts rf dts (closeApproach # results) =
     (case neo closeApproach of
        None \<Rightarrow> Inl AttributeError
      | Some n \<Rightarrow>
          (case dts (time closeApproach) of
             Inl e \<Rightarrow> Inl e
           | Inr s \<Rightarrow>
               (case approach_dicts rf dts results of
                  Inl e \<Rightarrow> Inl e
                | Inr ds \<Rightarrow> Inr (ApproachDict s closeApproach (neo_dict rf n) # ds))))"

text \<open>
  \<^verbatim>\<open>json.dump\<close> writes \<^verbatim>\<open>None\<close>, booleans, floats (not-a-number included) and
  strings; a \<^verbatim>\<open>datetime\<close> object is not serializable and raises \<^verbatim>\<open>TypeError\<close>.
\<close>

fun serializable :: "pyval \<Rightarrow> bool" where
  "serializable (PDatetime d) = False"
| "serializable v = True"

fun dumpable :: "jval \<Rightarrow> bool" where
  "dumpable (JVal v) = serializable v"
| "dumpable (JDict kvs) = list_all (\<lambda>kv. dumpable (snd kv)) kvs"

text \<open>
  \<^verbatim>\<open>write_to_json\<close>: the list handed to \<^verbatim>\<open>json.dump\<close>, or the exception raised
  while the list was built or dumped.
\<close>

definition write_to_json ::
  "(real \<Rightarrow> string) \<Rightarrow> dts_helper \<Rightarrow> CloseApproach list \<Rightarrow> error + jval list" where
  "write_to_json rf dts results =
     (case approach_dicts rf dts results of
        Inl e \<Rightarrow> Inl e
      | Inr ds \<Rightarrow> if list_all dumpable ds then Inr ds else Inl TypeError)"

text \<open>Reading a key of a dictionary built above.\<close>

fun jget :: "jval \<Rightarrow> string \<Rightarrow> jval option" where
  "jget (JDict kvs) k = map_of kvs k"
| "jget (JVal v) k = None"

section \<open>Properties of the entity model\<close>

lemma NearEarthObject_init_total:
  assumes "info ''designation'' = Some des" and "info ''name'' = Some nm"
    and "info ''diameter'' = Some dia" and "info ''hazardous'' = Some hz"
    and "\<not> truthy dia \<or> dia = PStr '''' \<or> (\<exists>x. py_float sf dia = Inr x)"
  shows "\<exists>n. NearEarthObject_init sf info = Inr n"
  using assms by (auto simp: NearEarthObject_init_def eq_str_def)

text \<open>
  Claim C5. Whenever the constructor is given its four keyword arguments and a
  diameter it can convert, it returns, and the \<open>hazardous\<close> attribute of the
  constructed \<^verbatim>\<open>NearEarthObject\<close> is true exactly when the raw token passed as
  \<^verbatim>\<open>hazardous\<close> is the string \<^verbatim>\<open>'Y'\<close>; every other value (\<^verbatim>\<open>'y'\<close>, \<^verbatim>\<open>'True'\<close>, \<^verbatim>\<open>True\<close>,
  \<^verbatim>\<open>None\<close>, the empty string, ...) gives false.
\<close>

theorem hazardous_iff_Y:
  assumes "info ''designation'' = Some des" and "info ''name'' = Some nm"
    and "info ''diameter'' = Some dia" and "info ''hazardous'' = Some hz"
    and "\<not> truthy dia \<or> (\<exists>x. py_float sf dia = Inr x)"
  shows "\<exists>n. NearEarthObject_init sf info = Inr n \<and> hazardous n = (hz = PStr ''Y'')"
  using assms by (auto simp: NearEarthObject_init_def eq_str_def)

theorem hazardous_iff_Y_witness:
  "NearEarthObject_init (\<lambda>s. None)
       [''designation'' \<mapsto> PStr ''433'', ''name'' \<mapsto> PStr ''Eros'',
        ''diameter'' \<mapsto> PStr '''', ''hazardous'' \<mapsto> PStr ''y'']
     = Inr \<lparr>designation = PStr ''433'', name = PStr ''Eros'', diameter = NaN,
            hazardous = False, approaches = []\<rparr>"
  using hazardous_iff_Y
    [of "[''designation'' \<mapsto> PStr ''433'', ''name'' \<mapsto> PStr ''Eros'',
          ''diameter'' \<mapsto> PStr '''', ''hazardous'' \<mapsto> PStr ''y'']"
        "PStr ''433''" "PStr ''Eros''" "PStr ''''" "PStr ''y''" "\<lambda>s. None"]
  by (simp add: NearEarthObject_init_def eq_str_def)

text \<open>
  Claim C6. Whenever the constructor is given its four keyword arguments and a
  diameter it can convert, it returns, and: the constructed designation is
  never \<^verbatim>\<open>None\<close>, and is the empty string when the raw designation is missing
  (\<^verbatim>\<open>None\<close>) or empty; when the raw name is missing or empty, the constructed name
  is \<^verbatim>\<open>None\<close>, which is not the empty string; when the raw diameter is missing or
  empty, the constructed diameter is not-a-number, which is not zero.
\<close>

theorem init_missing_fields:
  assumes "info ''designation'' = Some des" and "info ''name'' = Some nm"
    and "info ''diameter'' = Some dia" and "info ''hazardous'' = Some hz"
    and "\<not> truthy dia \<or> (\<exists>x. py_float sf dia = Inr x)"
  shows "\<exists>n. NearEarthObject_init sf info = Inr n
    \<and> designation n \<noteq> PNone
    \<and> (des = PNone \<or> des = PStr '''' \<longrightarrow> designation n = PStr '''')
    \<and> (nm = PNone \<or> nm = PStr '''' \<longrightarrow> name n = PNone \<and> name n \<noteq> PStr '''')
    \<and> (dia = PNone \<or> dia = PStr '''' \<longrightarrow> diameter n = NaN \<and> diameter n \<noteq> Fin 0)"
  using assms by (auto simp: NearEarthObject_init_def eq_str_def)

theorem init_missing_fields_witness:
  "NearEarthObject_init (\<lambda>s. None)
       [''designation'' \<mapsto> PStr '''', ''name'' \<mapsto> PNone,
        ''diameter'' \<mapsto> PStr '''', ''hazardous'' \<mapsto> PStr ''N'']
     = Inr \<lparr>designation = PStr '''', name = PNone, diameter = NaN,
            hazardous = False, approaches = []\<rparr>"
  using init_missing_fields
    [of "[''designation'' \<mapsto> PStr '''', ''name'' \<mapsto> PNone,
          ''diameter'' \<mapsto> PStr '''', ''hazardous'' \<mapsto> PStr ''N'']"
        "PStr ''''" "PNone" "PStr ''''" "PStr ''N''" "\<lambda>s. None"]
  by (simp add: NearEarthObject_init_def eq_str_def)

lemma CloseApproach_init_returns:
  assumes "info ''designation'' = Some des" and "info ''time'' = Some tm"
    and "info ''distance'' = Some dst" and "info ''velocity'' = Some vel"
    and "\<not> truthy tm \<or> (\<exists>t. cd tm = Inr t)"
    and "\<not> truthy dst \<or> (\<exists>x. py_float sf dst = Inr x)"
    and "\<not> truthy vel \<or> (\<exists>x. py_float sf vel = Inr x)"
  shows "\<exists>ca. CloseApproach_init sf cd info = Inr ca"
  using assms by (auto simp: CloseApproach_init_def)

lemma CloseApproach_init_time:
  assumes "CloseApproach_init sf cd info = Inr ca" and "info ''time'' = Some tm"
  shows "if truthy tm then cd tm = Inr (time ca) else time ca = None"
  using assms
  by (auto simp: CloseApproach_init_def split: option.splits sum.splits if_splits)

lemma CloseApproach_init_helper_raises:
  assumes "info ''designation'' = Some des" and "info ''time'' = Some tm"
    and "truthy tm" and "cd tm = Inl e"
  shows "CloseApproach_init sf cd info = Inl e"
  using assms by (simp add: CloseApproach_init_def)

text \<open>
  Claim C3. With \<open>cd_to_datetime\<close> as the spec describes it, whatever raw value is
  passed as \<^verbatim>\<open>time\<close> the constructor returns (given that the other three fields
  are acceptable), and the constructed time is null when the raw time is
  missing, empty, not text, or text that the calendar format does not parse;
  otherwise it is the parsed timestamp. The constructor itself only guards the
  missing and empty cases and has no exception handler
  (\<open>CloseApproach_init_time\<close>, \<open>CloseApproach_init_helper_raises\<close>), so what
  happens on unparseable text is the helper's doing.
\<close>

theorem approach_time_null_or_parsed:
  assumes "info ''designation'' = Some des" and "info ''time'' = Some tm"
    and "info ''distance'' = Some dst" and "info ''velocity'' = Some vel"
    and "\<not> truthy dst \<or> (\<exists>x. py_float sf dst = Inr x)"
    and "\<not> truthy vel \<or> (\<exists>x. py_float sf vel = Inr x)"
  shows "\<exists>ca. CloseApproach_init sf (cd_to_datetime parse_cd) info = Inr ca \<and>
           time ca = (case tm of PStr s \<Rightarrow> if s = [] then None else parse_cd s | _ \<Rightarrow> None)"
  using assms
  by (auto simp: CloseApproach_init_def cd_to_datetime_def split: pyval.splits)

theorem approach_time_null_or_parsed_witness:
  "CloseApproach_init (\<lambda>s. None)
       (cd_to_datetime (\<lambda>s. if s = ''1900-Jan-01 00:11''
            then Some \<lparr>year = 1900, month = 1, day = 1, hour = 0, minute = 11,
                        second = 0, microsecond = 0\<rparr>
            else None))
       [''designation'' \<mapsto> PStr ''170903'', ''time'' \<mapsto> PStr ''01/01/1900'',
        ''distance'' \<mapsto> PStr '''', ''velocity'' \<mapsto> PStr '''']
     = Inr \<lparr>designation' = PStr ''170903'', time = None, distance = Fin 0,
            velocity = Fin 0, neo = None\<rparr>"
  using approach_time_null_or_parsed
    [of "[''designation'' \<mapsto> PStr ''170903'', ''time'' \<mapsto> PStr ''01/01/1900'',
          ''distance'' \<mapsto> PStr '''', ''velocity'' \<mapsto> PStr '''']"
        "PStr ''170903''" "PStr ''01/01/1900''" "PStr ''''" "PStr ''''" "\<lambda>s. None"
        "\<lambda>s. if s = ''1900-Jan-01 00:11''
            then Some \<lparr>year = 1900, month = 1, day = 1, hour = 0, minute = 11,
                        second = 0, microsecond = 0\<rparr>
            else None"]
  by (simp add: CloseApproach_init_def cd_to_datetime_def)

lemma fullname_of_strings:
  assumes "designation n = PStr d" and "name n = PStr s"
  shows "fullname rf n = d @ '' ('' @ s @ '')''"
  using assms by (simp add: fullname_def)

text \<open>
  Claim C4. With a name present \<open>fullname\<close> is the designation followed by the name
  in parentheses: designation \<^verbatim>\<open>433\<close> and name \<^verbatim>\<open>Eros\<close> give \<^verbatim>\<open>433 (Eros)\<close>. With
  the name absent the property does not omit it: an object constructed with an
  empty name has the full name \<^verbatim>\<open>2020 AB (None)\<close>.
\<close>

theorem fullname_renders_absent_name:
  "fullname rf \<lparr>designation = PStr ''433'', name = PStr ''Eros'', diameter = Fin 16.84,
       hazardous = False, approaches = []\<rparr> = ''433 (Eros)''
   \<and> map_sum id (fullname rf)
        (NearEarthObject_init sf
           [''designation'' \<mapsto> PStr ''2020 AB'', ''name'' \<mapsto> PStr '''',
            ''diameter'' \<mapsto> PStr '''', ''hazardous'' \<mapsto> PStr ''N''])
       = Inr ''2020 AB (None)''"
  by (simp add: fullname_def NearEarthObject_init_def eq_str_def)

theorem fullname_renders_absent_name_witness:
  "map_sum id (fullname (\<lambda>x. ''16.84''))
        (NearEarthObject_init (\<lambda>s. None)
           [''designation'' \<mapsto> PStr ''2020 AB'', ''name'' \<mapsto> PStr '''',
            ''diameter'' \<mapsto> PStr '''', ''hazardous'' \<mapsto> PStr ''N''])
       = Inr ''2020 AB (None)''"
  using fullname_renders_absent_name [of "\<lambda>x. ''16.84''" "\<lambda>s. None"]
  by (rule conjunct2)

section \<open>Properties of the loaders\<close>

lemma index_of_Inr:
  "index_of xs x = Inr i \<Longrightarrow> i < length xs \<and> xs ! i = x"
  by (induction xs arbitrary: i) (auto split: if_splits sum.splits)

lemma index_of_absent:
  "x \<notin> set xs \<Longrightarrow> index_of xs x = Inl ValueError"
  by (induction xs) auto

lemma index_of_present:
  "x \<in> set xs \<Longrightarrow> \<exists>i. index_of xs x = Inr i"
  by (induction xs) auto

lemma load_neos_missing_field:
  assumes "\<not> set [''pdes'', ''name'', ''pha'', ''diameter''] \<subseteq> set header"
  shows "load_neos sf (header # rows) = Inl ValueError"
proof -
  from assms consider "''pdes'' \<notin> set header" | "''name'' \<notin> set header"
    | "''pha'' \<notin> set header" | "''diameter'' \<notin> set header"
    by auto
  then show ?thesis
  proof cases
    case 1
    then show ?thesis by (simp add: load_neos_def index_of_absent)
  next
    case 2
    then show ?thesis
      by (cases "''pdes'' \<in> set header")
        (auto simp: load_neos_def index_of_absent dest: index_of_present)
  next
    case 3
    then show ?thesis
      by (cases "''pdes'' \<in> set header"; cases "''name'' \<in> set header")
        (auto simp: load_neos_def index_of_absent dest!: index_of_present)
  next
    case 4
    then show ?thesis
      by (cases "''pdes'' \<in> set header"; cases "''name'' \<in> set header";
          cases "''pha'' \<in> set header")
        (auto simp: load_neos_def index_of_absent dest!: index_of_present)
  qed
qed

lemma load_approaches_missing_field:
  assumes "\<not> set [''des'', ''cd'', ''dist'', ''v_rel''] \<subseteq> set (cad_fields jsonData)"
  shows "load_approaches sf cd jsonData = Inl ValueError"
proof -
  let ?fs = "cad_fields jsonData"
  from assms consider "''des'' \<notin> set ?fs" | "''cd'' \<notin> set ?fs"
    | "''dist'' \<notin> set ?fs" | "''v_rel'' \<notin> set ?fs"
    by auto
  then show ?thesis
  proof cases
    case 1
    then show ?thesis by (simp add: load_approaches_def index_of_absent)
  next
    case 2
    then show ?thesis
      by (cases "''des'' \<in> set ?fs")
        (auto simp: load_approaches_def index_of_absent dest: index_of_present)
  next
    case 3
    then show ?thesis
      by (cases "''des'' \<in> set ?fs"; cases "''cd'' \<in> set ?fs")
        (auto simp: load_approaches_def index_of_absent dest!: index_of_present)
  next
    case 4
    then show ?thesis
      by (cases "''des'' \<in> set ?fs"; cases "''cd'' \<in> set ?fs";
          cases "''dist'' \<in> set ?fs")
        (auto simp: load_approaches_def index_of_absent dest!: index_of_present)
  qed
qed

text \<open>
  Claim C7. When the header row of the object file lacks one of \<^verbatim>\<open>pdes\<close>, \<^verbatim>\<open>name\<close>,
  \<^verbatim>\<open>pha\<close>, \<^verbatim>\<open>diameter\<close>, \<^verbatim>\<open>load_neos\<close> raises \<^verbatim>\<open>ValueError\<close> whatever the rows
  are; when the \<^verbatim>\<open>fields\<close> list of the approach file lacks one of \<^verbatim>\<open>des\<close>, \<^verbatim>\<open>cd\<close>,
  \<^verbatim>\<open>dist\<close>, \<^verbatim>\<open>v_rel\<close>, \<^verbatim>\<open>load_approaches\<close> raises \<^verbatim>\<open>ValueError\<close> whatever the data
  are. The result is the exception: no collection, partial or not, is returned.
\<close>

theorem load_fails_on_missing_field:
  "(\<not> set [''pdes'', ''name'', ''pha'', ''diameter''] \<subseteq> set header
      \<longrightarrow> load_neos sf (header # rows) = Inl ValueError)
   \<and> (\<not> set [''des'', ''cd'', ''dist'', ''v_rel''] \<subseteq> set (cad_fields jsonData)
      \<longrightarrow> load_approaches sf cd jsonData = Inl ValueError)"
  using load_neos_missing_field load_approaches_missing_field by blast

theorem load_fails_on_missing_field_witness:
  "load_neos (\<lambda>s. Some (Fin 16.84))
     [[''pdes'', ''name'', ''diameter''], [''433'', ''Eros'', ''16.84'']] = Inl ValueError
   \<and> load_approaches (\<lambda>s. Some (Fin 0.09)) (\<lambda>v. Inr None)
       \<lparr>cad_fields = [''des'', ''cd'', ''dist''],
        cad_data = [[PStr ''433'', PStr ''1900-Jan-01 00:11'', PStr ''0.09'']]\<rparr>
     = Inl ValueError"
proof -
  have a: "\<not> set [''pdes'', ''name'', ''pha'', ''diameter'']
             \<subseteq> set [''pdes'', ''name'', ''diameter'']"
    by simp
  have b: "\<not> set [''des'', ''cd'', ''dist'', ''v_rel'']
             \<subseteq> set (cad_fields \<lparr>cad_fields = [''des'', ''cd'', ''dist''],
        cad_data = [[PStr ''433'', PStr ''1900-Jan-01 00:11'', PStr ''0.09'']]\<rparr>)"
    by simp
  show ?thesis
    using load_fails_on_missing_field [THEN conjunct1, THEN mp, OF a]
      load_fails_on_missing_field [THEN conjunct2, THEN mp, OF b]
    by (rule conjI)
qed

lemma neo_rows_one_per_row:
  assumes "\<forall>row \<in> set rows. i_pdes < length row \<and> i_name < length row \<and>
             i_pha < length row \<and> i_diameter < length row \<and>
             (row ! i_diameter = [] \<or> sf (row ! i_diameter) \<noteq> None)"
  shows "\<exists>neos. neo_rows sf i_pdes i_name i_pha i_diameter rows = Inr neos \<and>
           list_all2 (\<lambda>row n. NearEarthObject_init sf
                [''designation'' \<mapsto> PStr (row ! i_pdes), ''name'' \<mapsto> PStr (row ! i_name),
                 ''diameter'' \<mapsto> PStr (row ! i_diameter),
                 ''hazardous'' \<mapsto> PStr (row ! i_pha)] = Inr n) rows neos"
  using assms
proof (induction rows)
  case Nil
  then show ?case by simp
next
  case (Cons row rows)
  from Cons.prems have "\<forall>row \<in> set rows. i_pdes < length row \<and> i_name < length row \<and>
             i_pha < length row \<and> i_diameter < length row \<and>
             (row ! i_diameter = [] \<or> sf (row ! i_diameter) \<noteq> None)"
    by simp
  from Cons.IH [OF this] obtain neos where neos: "neo_rows sf i_pdes i_name i_pha i_diameter rows = Inr neos"
    and all2: "list_all2 (\<lambda>row n. NearEarthObject_init sf
                [''designation'' \<mapsto> PStr (row ! i_pdes), ''name'' \<mapsto> PStr (row ! i_name),
                 ''diameter'' \<mapsto> PStr (row ! i_diameter),
                 ''hazardous'' \<mapsto> PStr (row ! i_pha)] = Inr n) rows neos"
    by blast
  from Cons.prems have len: "i_pdes < length row" "i_name < length row"
      "i_pha < length row" "i_diameter < length row"
    and dia: "row ! i_diameter = [] \<or> sf (row ! i_diameter) \<noteq> None"
    by auto
  have "\<exists>n. NearEarthObject_init sf
                [''designation'' \<mapsto> PStr (row ! i_pdes), ''name'' \<mapsto> PStr (row ! i_name),
                 ''diameter'' \<mapsto> PStr (row ! i_diameter),
                 ''hazardous'' \<mapsto> PStr (row ! i_pha)] = Inr n"
    by (rule NearEarthObject_init_total [where des = "PStr (row ! i_pdes)"
          and nm = "PStr (row ! i_name)" and dia = "PStr (row ! i_diameter)"
          and hz = "PStr (row ! i_pha)"]) (use dia in auto)
  then obtain n where n: "NearEarthObject_init sf
                [''designation'' \<mapsto> PStr (row ! i_pdes), ''name'' \<mapsto> PStr (row ! i_name),
                 ''diameter'' \<mapsto> PStr (row ! i_diameter),
                 ''hazardous'' \<mapsto> PStr (row ! i_pha)] = Inr n"
    by blast
  have "neo_rows sf i_pdes i_name i_pha i_diameter (row # rows) = Inr (n # neos)"
    by (simp add: getitem_def len n neos)
  moreover have "list_all2 (\<lambda>row n. NearEarthObject_init sf
                [''designation'' \<mapsto> PStr (row ! i_pdes), ''name'' \<mapsto> PStr (row ! i_name),
                 ''diameter'' \<mapsto> PStr (row ! i_diameter),
                 ''hazardous'' \<mapsto> PStr (row ! i_pha)] = Inr n) (row # rows) (n # neos)"
  proof (rule list.rel_intros(2))
    show "NearEarthObject_init sf
                [''designation'' \<mapsto> PStr (row ! i_pdes), ''name'' \<mapsto> PStr (row ! i_name),
                 ''diameter'' \<mapsto> PStr (row ! i_diameter),
                 ''hazardous'' \<mapsto> PStr (row ! i_pha)] = Inr n"
      by (rule n)
  qed (rule all2)
  ultimately show ?case by blast
qed

lemma approach_items_one_per_item:
  assumes "\<forall>item \<in> set items. i_des < length item \<and> i_cd < length item \<and>
             i_dist < length item \<and> i_v_rel < length item \<and>
             (\<not> truthy (item ! i_cd) \<or> (\<exists>t. cd (item ! i_cd) = Inr t)) \<and>
             (\<not> truthy (item ! i_dist) \<or> (\<exists>x. py_float sf (item ! i_dist) = Inr x)) \<and>
             (\<not> truthy (item ! i_v_rel) \<or> (\<exists>x. py_float sf (item ! i_v_rel) = Inr x))"
  shows "\<exists>cas. approach_items sf cd i_des i_cd i_dist i_v_rel items = Inr cas \<and>
           list_all2 (\<lambda>item ca. CloseApproach_init sf cd
                [''designation'' \<mapsto> item ! i_des, ''time'' \<mapsto> item ! i_cd,
                 ''distance'' \<mapsto> item ! i_dist, ''velocity'' \<mapsto> item ! i_v_rel] = Inr ca)
             items cas"
  using assms
proof (induction items)
  case Nil
  then show ?case by simp
next
  case (Cons item items)
  from Cons.prems have "\<forall>item \<in> set items. i_des < length item \<and> i_cd < length item \<and>
             i_dist < length item \<and> i_v_rel < length item \<and>
             (\<not> truthy (item ! i_cd) \<or> (\<exists>t. cd (item ! i_cd) = Inr t)) \<and>
             (\<not> truthy (item ! i_dist) \<or> (\<exists>x. py_float sf (item ! i_dist) = Inr x)) \<and>
             (\<not> truthy (item ! i_v_rel) \<or> (\<exists>x. py_float sf (item ! i_v_rel) = Inr x))"
    by simp
  from Cons.IH [OF this] obtain cas where cas: "approach_items sf cd i_des i_cd i_dist i_v_rel items = Inr cas"
    and all2: "list_all2 (\<lambda>item ca. CloseApproach_init sf cd
                [''designation'' \<mapsto> item ! i_des, ''time'' \<mapsto> item ! i_cd,
                 ''distance'' \<mapsto> item ! i_dist, ''velocity'' \<mapsto> item ! i_v_rel] = Inr ca)
             items cas"
    by blast
  from Cons.prems have len: "i_des < length item" "i_cd < length item"
      "i_dist < length item" "i_v_rel < length item"
    and t: "\<not> truthy (item ! i_cd) \<or> (\<exists>t. cd (item ! i_cd) = Inr t)"
    and d: "\<not> truthy (item ! i_dist) \<or> (\<exists>x. py_float sf (item ! i_dist) = Inr x)"
    and v: "\<not> truthy (item ! i_v_rel) \<or> (\<exists>x. py_float sf (item ! i_v_rel) = Inr x)"
    by auto
  have "\<exists>ca. CloseApproach_init sf cd
                [''designation'' \<mapsto> item ! i_des, ''time'' \<mapsto> item ! i_cd,
                 ''distance'' \<mapsto> item ! i_dist, ''velocity'' \<mapsto> item ! i_v_rel] = Inr ca"
    by (rule CloseApproach_init_returns [where des = "item ! i_des" and tm = "item ! i_cd"
          and dst = "item ! i_dist" and vel = "item ! i_v_rel"]) (use t d v in auto)
  then obtain ca where ca: "CloseApproach_init sf cd
                [''designation'' \<mapsto> item ! i_des, ''time'' \<mapsto> item ! i_cd,
                 ''distance'' \<mapsto> item ! i_dist, ''velocity'' \<mapsto> item ! i_v_rel] = Inr ca"
    by blast
  have "approach_items sf cd i_des i_cd i_dist i_v_rel (item # items) = Inr (ca # cas)"
    by (simp add: getitem_def len ca cas)
  moreover have "list_all2 (\<lambda>item ca. CloseApproach_init sf cd
                [''designation'' \<mapsto> item ! i_des, ''time'' \<mapsto> item ! i_cd,
                 ''distance'' \<mapsto> item ! i_dist, ''velocity'' \<mapsto> item ! i_v_rel] = Inr ca)
             (item # items) (ca # cas)"
  proof (rule list.rel_intros(2))
    show "CloseApproach_init sf cd
                [''designation'' \<mapsto> item ! i_des, ''time'' \<mapsto> item ! i_cd,
                 ''distance'' \<mapsto> item ! i_dist, ''velocity'' \<mapsto> item ! i_v_rel] = Inr ca"
      by (rule ca)
  qed (rule all2)
  ultimately show ?case by blast
qed

text \<open>
  Claim C9. On a well-formed object file (the header names the four columns,
  every row reaches those columns, every diameter cell is empty or a float
  literal) \<^verbatim>\<open>load_neos\<close> returns, and the objects it returns correspond one to one
  and in order to the data rows, each being the object constructed from its
  row. On a well-formed approach document (the \<^verbatim>\<open>fields\<close> list names the four
  columns, every entry reaches them, every time cell is falsy or accepted by
  \<^verbatim>\<open>cd_to_datetime\<close>, every distance and velocity cell is falsy or convertible)
  \<^verbatim>\<open>load_approaches\<close> returns, and the approaches correspond one to one and in
  order to the entries of the \<^verbatim>\<open>data\<close> array. Neither loader looks at the other
  file, so nothing depends on whether a designation will later resolve.
\<close>

theorem load_one_entity_per_record:
  "(index_of header ''pdes'' = Inr i_pdes \<and> index_of header ''name'' = Inr i_name \<and>
    index_of header ''pha'' = Inr i_pha \<and> index_of header ''diameter'' = Inr i_diameter \<and>
    (\<forall>row \<in> set rows. i_pdes < length row \<and> i_name < length row \<and>
       i_pha < length row \<and> i_diameter < length row \<and>
       (row ! i_diameter = [] \<or> sf (row ! i_diameter) \<noteq> None))
    \<longrightarrow> (\<exists>neos. load_neos sf (header # rows) = Inr neos \<and> length neos = length rows \<and>
          list_all2 (\<lambda>row n. NearEarthObject_init sf
                [''designation'' \<mapsto> PStr (row ! i_pdes), ''name'' \<mapsto> PStr (row ! i_name),
                 ''diameter'' \<mapsto> PStr (row ! i_diameter),
                 ''hazardous'' \<mapsto> PStr (row ! i_pha)] = Inr n) rows neos))
   \<and>
   (index_of (cad_fields jsonData) ''des'' = Inr i_des \<and>
    index_of (cad_fields jsonData) ''cd'' = Inr i_cd \<and>
    index_of (cad_fields jsonData) ''dist'' = Inr i_dist \<and>
    index_of (cad_fields jsonData) ''v_rel'' = Inr i_v_rel \<and>
    (\<forall>item \<in> set (cad_data jsonData). i_des < length item \<and> i_cd < length item \<and>
       i_dist < length item \<and> i_v_rel < length item \<and>
       (\<not> truthy (item ! i_cd) \<or> (\<exists>t. cd (item ! i_cd) = Inr t)) \<and>
       (\<not> truthy (item ! i_dist) \<or> (\<exists>x. py_float sf (item ! i_dist) = Inr x)) \<and>
       (\<not> truthy (item ! i_v_rel) \<or> (\<exists>x. py_float sf (item ! i_v_rel) = Inr x)))
    \<longrightarrow> (\<exists>cas. load_approaches sf cd jsonData = Inr cas \<and>
          length cas = length (cad_data jsonData) \<and>
          list_all2 (\<lambda>item ca. CloseApproach_init sf cd
                [''designation'' \<mapsto> item ! i_des, ''time'' \<mapsto> item ! i_cd,
                 ''distance'' \<mapsto> item ! i_dist, ''velocity'' \<mapsto> item ! i_v_rel] = Inr ca)
            (cad_data jsonData) cas))"
proof (intro conjI impI; elim conjE)
  assume idx: "index_of header ''pdes'' = Inr i_pdes" "index_of header ''name'' = Inr i_name"
    "index_of header ''pha'' = Inr i_pha" "index_of header ''diameter'' = Inr i_diameter"
  assume "\<forall>row \<in> set rows. i_pdes < length row \<and> i_name < length row \<and>
       i_pha < length row \<and> i_diameter < length row \<and>
       (row ! i_diameter = [] \<or> sf (row ! i_diameter) \<noteq> None)"
  from neo_rows_one_per_row [OF this] obtain neos
    where neos: "neo_rows sf i_pdes i_name i_pha i_diameter rows = Inr neos"
      and all2: "list_all2 (\<lambda>row n. NearEarthObject_init sf
                [''designation'' \<mapsto> PStr (row ! i_pdes), ''name'' \<mapsto> PStr (row ! i_name),
                 ''diameter'' \<mapsto> PStr (row ! i_diameter),
                 ''hazardous'' \<mapsto> PStr (row ! i_pha)] = Inr n) rows neos"
    by blast
  have "load_neos sf (header # rows) = Inr neos"
    by (simp add: load_neos_def idx neos)
  moreover from all2 have "length neos = length rows"
    by (simp add: list_all2_lengthD)
  ultimately show "\<exists>neos. load_neos sf (header # rows) = Inr neos \<and>
      length neos = length rows \<and>
      list_all2 (\<lambda>row n. NearEarthObject_init sf
                [''designation'' \<mapsto> PStr (row ! i_pdes), ''name'' \<mapsto> PStr (row ! i_name),
                 ''diameter'' \<mapsto> PStr (row ! i_diameter),
                 ''hazardous'' \<mapsto> PStr (row ! i_pha)] = Inr n) rows neos"
    using all2 by blast
next
  assume idx: "index_of (cad_fields jsonData) ''des'' = Inr i_des"
    "index_of (cad_fields jsonData) ''cd'' = Inr i_cd"
    "index_of (cad_fields jsonData) ''dist'' = Inr i_dist"
    "index_of (cad_fields jsonData) ''v_rel'' = Inr i_v_rel"
  assume "\<forall>item \<in> set (cad_data jsonData). i_des < length item \<and> i_cd < length item \<and>
       i_dist < length item \<and> i_v_rel < length item \<and>
       (\<not> truthy (item ! i_cd) \<or> (\<exists>t. cd (item ! i_cd) = Inr t)) \<and>
       (\<not> truthy (item ! i_dist) \<or> (\<exists>x. py_float sf (item ! i_dist) = Inr x)) \<and>
       (\<not> truthy (item ! i_v_rel) \<or> (\<exists>x. py_float sf (item ! i_v_rel) = Inr x))"
  from approach_items_one_per_item [OF this] obtain cas
    where cas: "approach_items sf cd i_des i_cd i_dist i_v_rel (cad_data jsonData) = Inr cas"
      and all2: "list_all2 (\<lambda>item ca. CloseApproach_init sf cd
                [''designation'' \<mapsto> item ! i_des, ''time'' \<mapsto> item ! i_cd,
                 ''distance'' \<mapsto> item ! i_dist, ''velocity'' \<mapsto> item ! i_v_rel] = Inr ca)
            (cad_data jsonData) cas"
    by blast
  have "load_approaches sf cd jsonData = Inr cas"
    by (simp add: load_approaches_def idx cas)
  moreover from all2 have "length cas = length (cad_data jsonData)"
    by (simp add: list_all2_lengthD)
  ultimately show "\<exists>cas. load_approaches sf cd jsonData = Inr cas \<and>
          length cas = length (cad_data jsonData) \<and>
          list_all2 (\<lambda>item ca. CloseApproach_init sf cd
                [''designation'' \<mapsto> item ! i_des, ''time'' \<mapsto> item ! i_cd,
                 ''distance'' \<mapsto> item ! i_dist, ''velocity'' \<mapsto> item ! i_v_rel] = Inr ca)
            (cad_data jsonData) cas"
    using all2 by blast
qed

theorem load_one_entity_per_record_witness:
  "load_neos (\<lambda>s. if s = ''16.84'' then Some (Fin 16.84) else None)
     [[''pdes'', ''name'', ''pha'', ''diameter''],
      [''433'', ''Eros'', ''N'', ''16.84''],
      [''2020 AB'', '''', ''Y'', '''']]
   = Inr [\<lparr>designation = PStr ''433'', name = PStr ''Eros'', diameter = Fin 16.84,
           hazardous = False, approaches = []\<rparr>,
          \<lparr>designation = PStr ''2020 AB'', name = PNone, diameter = NaN,
           hazardous = True, approaches = []\<rparr>]
   \<and> load_approaches (\<lambda>s. if s = ''0.5'' then Some (Fin 0.5) else None)
       (\<lambda>v. if v = PStr ''1900-Jan-01 00:11''
            then Inr (Some \<lparr>year = 1900, month = 1, day = 1, hour = 0, minute = 11,
                             second = 0, microsecond = 0\<rparr>)
            else Inl ValueError)
       \<lparr>cad_fields = [''des'', ''cd'', ''dist'', ''v_rel''],
        cad_data = [[PStr ''433'', PStr ''1900-Jan-01 00:11'', PStr ''0.5'', PNone],
                    [PStr ''99999'', PStr '''', PNone, PStr ''0.5'']]\<rparr>
   = Inr [\<lparr>designation' = PStr ''433'',
           time = Some \<lparr>year = 1900, month = 1, day = 1, hour = 0, minute = 11,
                        second = 0, microsecond = 0\<rparr>,
           distance = Fin 0.5, velocity = Fin 0, neo = None\<rparr>,
          \<lparr>designation' = PStr ''99999'', time = None, distance = Fin 0,
           velocity = Fin 0.5, neo = None\<rparr>]"
  using load_one_entity_per_record
    [where header = "[''pdes'', ''name'', ''pha'', ''diameter'']"
       and i_pdes = 0 and i_name = 1 and i_pha = 2 and i_diameter = 3
       and rows = "[[''433'', ''Eros'', ''N'', ''16.84''], [''2020 AB'', '''', ''Y'', '''']]"
       and sf = "\<lambda>s. if s = ''16.84'' then Some (Fin 16.84) else None"]
    load_one_entity_per_record
    [where jsonData = "\<lparr>cad_fields = [''des'', ''cd'', ''dist'', ''v_rel''],
        cad_data = [[PStr ''433'', PStr ''1900-Jan-01 00:11'', PStr ''0.5'', PNone],
                    [PStr ''99999'', PStr '''', PNone, PStr ''0.5'']]\<rparr>"
       and i_des = 0 and i_cd = 1 and i_dist = 2 and i_v_rel = 3
       and sf = "\<lambda>s. if s = ''0.5'' then Some (Fin 0.5) else None"
       and cd = "\<lambda>v. if v = PStr ''1900-Jan-01 00:11''
            then Inr (Some \<lparr>year = 1900, month = 1, day = 1, hour = 0, minute = 11,
                             second = 0, microsecond = 0\<rparr>)
            else Inl ValueError"]
  by (simp add: load_neos_def load_approaches_def getitem_def NearEarthObject_init_def
      CloseApproach_init_def eq_str_def)

section \<open>Properties of the writers\<close>

lemma writerow_header: "writerow rf (map PStr fieldnames) = fieldnames"
  by (simp add: writerow_def csv_field_def fieldnames_def)

lemma write_rows_linked:
  assumes "\<forall>ca \<in> set results. neo ca \<noteq> None"
  shows "write_rows rf results =
    (map (\<lambda>ca. map (csv_field rf)
            [time_value (time ca), PFloat (distance ca), PFloat (velocity ca),
             designation (the (neo ca)), name (the (neo ca)),
             PFloat (diameter (the (neo ca))), PBool (hazardous (the (neo ca)))]) results,
     None)"
  using assms by (induction results) (auto simp: writerow_def)

lemma write_rows_unlinked:
  assumes "neo ca = None"
  shows "write_rows rf (ca # results) = ([], Some AttributeError)"
  using assms by simp

lemma write_to_csv_header_first:
  "\<exists>rows e. write_to_csv rf results = (fieldnames # rows, e)"
  by (simp add: write_to_csv_def writerow_header split: prod.splits)

lemma pad_2: "pad 2 n = [''0123456789'' ! (n div 10 mod 10), ''0123456789'' ! (n mod 10)]"
  by (simp add: numeral_2_eq_2)

lemma pad_4:
  "pad 4 n = [''0123456789'' ! (n div 1000 mod 10), ''0123456789'' ! (n div 100 mod 10),
              ''0123456789'' ! (n div 10 mod 10), ''0123456789'' ! (n mod 10)]"
proof -
  have "pad 4 n = pad (Suc (Suc (Suc (Suc 0)))) n"
    by (simp only: numeral_eq_Suc pred_numeral_simps BitM.simps)
  also have "\<dots> = [''0123456789'' ! (n div 10 div 10 div 10 mod 10),
              ''0123456789'' ! (n div 10 div 10 mod 10),
              ''0123456789'' ! (n div 10 mod 10), ''0123456789'' ! (n mod 10)]"
    by (simp del: nth_Cons_numeral nth_Cons_Suc One_nat_def)
  also have "n div 10 div 10 div 10 = n div 1000"
    by (simp add: div_mult2_eq [symmetric])
  also have "n div 10 div 10 = n div 100"
    by (simp add: div_mult2_eq [symmetric])
  finally show ?thesis .
qed

lemma datetime_str_example:
  "datetime_str \<lparr>year = 2020, month = 1, day = 1, hour = 0, minute = 0, second = 0,
       microsecond = 0\<rparr> = ''2020-01-01 00:00:00''"
  by (simp add: datetime_str_def pad_2 pad_4)

text \<open>
  Claim C8. For results that are all linked to an object, \<^verbatim>\<open>write_to_csv\<close> ends
  without an exception and the file holds the seven-column header row first,
  then exactly one row per approach, in the order of the results; each row
  holds, in the header's column order, the approach's time, distance and
  velocity and its linked object's designation, name, diameter and hazardous
  flag, each as \<^verbatim>\<open>csv.writer\<close> prints it.
\<close>

theorem write_to_csv_rows:
  assumes "\<forall>ca \<in> set results. neo ca \<noteq> None"
  shows "write_to_csv rf results =
    (fieldnames #
     map (\<lambda>ca. map (csv_field rf)
            [time_value (time ca), PFloat (distance ca), PFloat (velocity ca),
             designation (the (neo ca)), name (the (neo ca)),
             PFloat (diameter (the (neo ca))), PBool (hazardous (the (neo ca)))]) results,
     None)"
  by (simp add: write_to_csv_def write_rows_linked [OF assms] writerow_header)

theorem write_to_csv_rows_witness:
  "write_to_csv (\<lambda>x. if x = 0.5 then ''0.5'' else if x = 10 then ''10.0'' else ''16.84'')
     [\<lparr>designation' = PStr ''433'',
       time = Some \<lparr>year = 2020, month = 1, day = 1, hour = 0, minute = 0, second = 0,
                    microsecond = 0\<rparr>,
       distance = Fin 0.5, velocity = Fin 10,
       neo = Some \<lparr>designation = PStr ''433'', name = PStr ''Eros'', diameter = Fin 16.84,
                   hazardous = False, approaches = [0]\<rparr>\<rparr>,
      \<lparr>designation' = PStr ''2020 AB'', time = None, distance = Fin 0.5, velocity = Fin 10,
       neo = Some \<lparr>designation = PStr ''2020 AB'', name = PNone, diameter = NaN,
                   hazardous = True, approaches = [1]\<rparr>\<rparr>]
   = ([[''datetime_utc'', ''distance_au'', ''velocity_km_s'', ''designation'', ''name'',
        ''diameter_km'', ''potentially_hazardous''],
       [''2020-01-01 00:00:00'', ''0.5'', ''10.0'', ''433'', ''Eros'', ''16.84'', ''False''],
       ['''', ''0.5'', ''10.0'', ''2020 AB'', '''', ''nan'', ''True'']],
      None)"
  using write_to_csv_rows
    [of "[\<lparr>designation' = PStr ''433'',
       time = Some \<lparr>year = 2020, month = 1, day = 1, hour = 0, minute = 0, second = 0,
                    microsecond = 0\<rparr>,
       distance = Fin 0.5, velocity = Fin 10,
       neo = Some \<lparr>designation = PStr ''433'', name = PStr ''Eros'', diameter = Fin 16.84,
                   hazardous = False, approaches = [0]\<rparr>\<rparr>,
      \<lparr>designation' = PStr ''2020 AB'', time = None, distance = Fin 0.5, velocity = Fin 10,
       neo = Some \<lparr>designation = PStr ''2020 AB'', name = PNone, diameter = NaN,
                   hazardous = True, approaches = [1]\<rparr>\<rparr>]"
        "\<lambda>x. if x = 0.5 then ''0.5'' else if x = 10 then ''10.0'' else ''16.84''"]
  by (simp add: csv_field_def time_value_def datetime_str_def pad_2 pad_4 fieldnames_def)

lemma dumpable_ApproachDict:
  "dumpable (ApproachDict s ca (neo_dict rf n)) = (serializable s \<and> serializable (name n))"
  by (simp add: ApproachDict_def neo_dict_def)

lemma approach_dicts_linked:
  assumes "\<forall>ca \<in> set results. neo ca \<noteq> None \<and> (\<exists>s. dts (time ca) = Inr s)"
  shows "approach_dicts rf dts results =
    Inr (map (\<lambda>ca. ApproachDict (projr (dts (time ca))) ca (neo_dict rf (the (neo ca))))
           results)"
  using assms by (induction results) auto

lemma write_to_json_linked:
  assumes "\<forall>ca \<in> set results. \<exists>n s. neo ca = Some n \<and> serializable (name n) \<and>
             dts (time ca) = Inr s \<and> serializable s"
  shows "write_to_json rf dts results =
    Inr (map (\<lambda>ca. ApproachDict (projr (dts (time ca))) ca (neo_dict rf (the (neo ca))))
           results)"
proof -
  from assms have linked:
    "\<forall>ca \<in> set results. neo ca \<noteq> None \<and> (\<exists>s. dts (time ca) = Inr s)"
    by fastforce
  from assms have "list_all dumpable
      (map (\<lambda>ca. ApproachDict (projr (dts (time ca))) ca (neo_dict rf (the (neo ca))))
         results)"
    by (fastforce simp: list_all_iff dumpable_ApproachDict)
  then show ?thesis
    by (simp add: write_to_json_def approach_dicts_linked [OF linked])
qed

lemma jget_neo: "jget (ApproachDict s ca nd) ''neo'' = Some nd"
  by (simp add: ApproachDict_def)

lemma jget_neo_dict:
  "jget (neo_dict rf n) ''designation'' = Some (JVal (PStr (py_str rf (designation n))))"
  "jget (neo_dict rf n) ''name'' = Some (JVal (name n))"
  "jget (neo_dict rf n) ''diameter_km'' = Some (JVal (PFloat (diameter n)))"
  "jget (neo_dict rf n) ''potentially_hazardous'' = Some (JVal (PBool (hazardous n)))"
  by (simp_all add: neo_dict_def)

text \<open>
  Claim C10. For results that are all linked (and for which \<^verbatim>\<open>datetime_to_str\<close>
  returns and \<^verbatim>\<open>json.dump\<close> can write the names and times), \<^verbatim>\<open>write_to_json\<close>
  returns one dictionary per approach, in order; in each, the nested \<^verbatim>\<open>neo\<close>
  dictionary has under \<^verbatim>\<open>designation\<close> the string \<^verbatim>\<open>str(designation)\<close> and under
  \<^verbatim>\<open>name\<close> the object's name as the model holds it. When the object has no name
  that entry is \<^verbatim>\<open>None\<close> (JSON null), not a string of any kind.
\<close>

theorem json_name_null_designation_string:
  assumes "\<forall>ca \<in> set results. \<exists>n s. neo ca = Some n \<and> serializable (name n) \<and>
             dts (time ca) = Inr s \<and> serializable s"
  shows "\<exists>out. write_to_json rf dts results = Inr out \<and> length out = length results \<and>
    (\<forall>i < length results. \<exists>n nd. neo (results ! i) = Some n \<and>
        jget (out ! i) ''neo'' = Some nd \<and>
        jget nd ''designation'' = Some (JVal (PStr (py_str rf (designation n)))) \<and>
        jget nd ''name'' = Some (JVal (name n)) \<and>
        (name n = PNone \<longrightarrow> jget nd ''name'' = Some (JVal PNone) \<and>
           (\<forall>s. jget nd ''name'' \<noteq> Some (JVal (PStr s)))))"
proof -
  let ?out = "map (\<lambda>ca. ApproachDict (projr (dts (time ca))) ca (neo_dict rf (the (neo ca))))
                results"
  have w: "write_to_json rf dts results = Inr ?out"
    by (rule write_to_json_linked [OF assms])
  have each: "\<forall>i < length results. \<exists>n nd. neo (results ! i) = Some n \<and>
        jget (?out ! i) ''neo'' = Some nd \<and>
        jget nd ''designation'' = Some (JVal (PStr (py_str rf (designation n)))) \<and>
        jget nd ''name'' = Some (JVal (name n)) \<and>
        (name n = PNone \<longrightarrow> jget nd ''name'' = Some (JVal PNone) \<and>
           (\<forall>s. jget nd ''name'' \<noteq> Some (JVal (PStr s))))"
  proof (intro allI impI)
    fix i assume i: "i < length results"
    with assms obtain n where n: "neo (results ! i) = Some n"
      by (metis nth_mem)
    have "neo (results ! i) = Some n \<and>
        jget (?out ! i) ''neo'' = Some (neo_dict rf n) \<and>
        jget (neo_dict rf n) ''designation'' = Some (JVal (PStr (py_str rf (designation n)))) \<and>
        jget (neo_dict rf n) ''name'' = Some (JVal (name n)) \<and>
        (name n = PNone \<longrightarrow> jget (neo_dict rf n) ''name'' = Some (JVal PNone) \<and>
           (\<forall>s. jget (neo_dict rf n) ''name'' \<noteq> Some (JVal (PStr s))))"
      using i n by (simp add: jget_neo jget_neo_dict)
    then show "\<exists>n nd. neo (results ! i) = Some n \<and>
        jget (?out ! i) ''neo'' = Some nd \<and>
        jget nd ''designation'' = Some (JVal (PStr (py_str rf (designation n)))) \<and>
        jget nd ''name'' = Some (JVal (name n)) \<and>
        (name n = PNone \<longrightarrow> jget nd ''name'' = Some (JVal PNone) \<and>
           (\<forall>s. jget nd ''name'' \<noteq> Some (JVal (PStr s))))"
      by blast
  qed
  have len: "length ?out = length results"
    by simp
  show ?thesis
    by (intro exI [of _ ?out] conjI w len each)
qed

theorem json_name_null_designation_string_witness:
  "write_to_json (\<lambda>x. if x = 0.5 then ''0.5'' else ''10.0'')
     (\<lambda>t. case t of None \<Rightarrow> Inl TypeError | Some d \<Rightarrow> Inr (PStr (datetime_str d)))
     [\<lparr>designation' = PStr ''2020 AB'',
       time = Some \<lparr>year = 2020, month = 1, day = 1, hour = 0, minute = 0, second = 0,
                    microsecond = 0\<rparr>,
       distance = Fin 0.5, velocity = Fin 10,
       neo = Some \<lparr>designation = PStr ''2020 AB'', name = PNone, diameter = NaN,
                   hazardous = True, approaches = [0]\<rparr>\<rparr>]
   = Inr [JDict [(''datetime_utc'', JVal (PStr ''2020-01-01 00:00:00'')),
                 (''distance_au'', JVal (PFloat (Fin 0.5))),
                 (''velocity_km_s'', JVal (PFloat (Fin 10))),
                 (''neo'', JDict [(''designation'', JVal (PStr ''2020 AB'')),
                                  (''name'', JVal PNone),
                                  (''diameter_km'', JVal (PFloat NaN)),
                                  (''potentially_hazardous'', JVal (PBool True))])]]"
  using json_name_null_designation_string
    [of "[\<lparr>designation' = PStr ''2020 AB'',
       time = Some \<lparr>year = 2020, month = 1, day = 1, hour = 0, minute = 0, second = 0,
                    microsecond = 0\<rparr>,
       distance = Fin 0.5, velocity = Fin 10,
       neo = Some \<lparr>designation = PStr ''2020 AB'', name = PNone, diameter = NaN,
                   hazardous = True, approaches = [0]\<rparr>\<rparr>]"
        "\<lambda>t. case t of None \<Rightarrow> Inl TypeError | Some d \<Rightarrow> Inr (PStr (datetime_str d))"
        "\<lambda>x. if x = 0.5 then ''0.5'' else ''10.0''"]
  by (simp add: write_to_json_def ApproachDict_def neo_dict_def datetime_str_def pad_2 pad_4)

lemma csv_time_cell:
  assumes "neo ca = Some n" and "time ca = Some t"
  shows "hd (hd (fst (write_rows rf (ca # results)))) = datetime_str t"
  using assms by (simp add: writerow_def csv_field_def time_value_def split: prod.splits)

text \<open>
  Claim C2. The approach of designation \<^verbatim>\<open>433\<close> at 2020-01-01 00:00, linked to the
  object Eros, is written by \<^verbatim>\<open>write_to_csv\<close> with the time cell
  \<^verbatim>\<open>2020-01-01 00:00:00\<close>: the row is given the \<^verbatim>\<open>datetime\<close> object itself, which the
  csv module prints with \<^verbatim>\<open>str\<close>, seconds included, and \<^verbatim>\<open>write_to_csv\<close> never
  calls \<^verbatim>\<open>datetime_to_str\<close>. \<^verbatim>\<open>write_to_json\<close> and the property \<^verbatim>\<open>time_str\<close> pass the
  same time through \<^verbatim>\<open>datetime_to_str\<close> (here the formatter as the spec describes
  it). So the canonical formatter is not what the CSV output applies.
\<close>

theorem csv_time_written_with_seconds:
  "write_to_csv rf
     [\<lparr>designation' = PStr ''433'',
       time = Some \<lparr>year = 2020, month = 1, day = 1, hour = 0, minute = 0, second = 0,
                    microsecond = 0\<rparr>,
       distance = Fin 0.5, velocity = Fin 10,
       neo = Some \<lparr>designation = PStr ''433'', name = PStr ''Eros'', diameter = Fin 16.84,
                   hazardous = False, approaches = [0]\<rparr>\<rparr>]
   = ([fieldnames,
       [''2020-01-01 00:00:00'', rf 0.5, rf 10, ''433'', ''Eros'', rf 16.84, ''False'']],
      None)
   \<and> write_to_json rf (datetime_to_str fmt)
     [\<lparr>designation' = PStr ''433'',
       time = Some \<lparr>year = 2020, month = 1, day = 1, hour = 0, minute = 0, second = 0,
                    microsecond = 0\<rparr>,
       distance = Fin 0.5, velocity = Fin 10,
       neo = Some \<lparr>designation = PStr ''433'', name = PStr ''Eros'', diameter = Fin 16.84,
                   hazardous = False, approaches = [0]\<rparr>\<rparr>]
   = Inr [JDict [(''datetime_utc'',
                   JVal (PStr (fmt \<lparr>year = 2020, month = 1, day = 1, hour = 0, minute = 0,
                                     second = 0, microsecond = 0\<rparr>))),
                 (''distance_au'', JVal (PFloat (Fin 0.5))),
                 (''velocity_km_s'', JVal (PFloat (Fin 10))),
                 (''neo'', JDict [(''designation'', JVal (PStr ''433'')),
                                  (''name'', JVal (PStr ''Eros'')),
                                  (''diameter_km'', JVal (PFloat (Fin 16.84))),
                                  (''potentially_hazardous'', JVal (PBool False))])]]
   \<and> time_str (datetime_to_str fmt)
     \<lparr>designation' = PStr ''433'',
       time = Some \<lparr>year = 2020, month = 1, day = 1, hour = 0, minute = 0, second = 0,
                    microsecond = 0\<rparr>,
       distance = Fin 0.5, velocity = Fin 10,
       neo = Some \<lparr>designation = PStr ''433'', name = PStr ''Eros'', diameter = Fin 16.84,
                   hazardous = False, approaches = [0]\<rparr>\<rparr>
   = Inr (PStr (fmt \<lparr>year = 2020, month = 1, day = 1, hour = 0, minute = 0, second = 0,
                     microsecond = 0\<rparr>))"
  by (simp add: write_to_csv_def writerow_def csv_field_def time_value_def fieldnames_def
      datetime_str_def pad_2 pad_4 write_to_json_def ApproachDict_def neo_dict_def
      datetime_to_str_def time_str_def)

section \<open>Names as the loader makes them\<close>

lemma NearEarthObject_init_name_text:
  assumes "NearEarthObject_init sf info = Inr n" and "info ''name'' = Some (PStr s)"
  shows "name n = PNone \<or> name n = PStr s"
  using assms
  by (auto simp: NearEarthObject_init_def split: option.splits sum.splits if_splits)

lemma neo_rows_names_serializable:
  "neo_rows sf i_pdes i_name i_pha i_diameter rows = Inr neos
     \<Longrightarrow> \<forall>n \<in> set neos. serializable (name n)"
proof (induction rows arbitrary: neos)
  case Nil
  then show ?case by simp
next
  case (Cons row rows)
  from Cons.prems obtain c_pdes c_name c_diameter c_pha n ns where
    n: "NearEarthObject_init sf
             [''designation'' \<mapsto> PStr c_pdes, ''name'' \<mapsto> PStr c_name,
              ''diameter'' \<mapsto> PStr c_diameter, ''hazardous'' \<mapsto> PStr c_pha] = Inr n"
    and ns: "neo_rows sf i_pdes i_name i_pha i_diameter rows = Inr ns"
    and neos: "neos = n # ns"
    by (auto split: sum.splits)
  from NearEarthObject_init_name_text [OF n, of c_name] have "serializable (name n)"
    by auto
  with Cons.IH [OF ns] neos show ?case by simp
qed

lemma load_neos_names_serializable:
  "load_neos sf reader = Inr neos \<Longrightarrow> \<forall>n \<in> set neos. serializable (name n)"
  by (auto simp: load_neos_def split: list.splits sum.splits
      dest!: neo_rows_names_serializable)

section \<open>Approaches that no object has been assigned to\<close>

lemma unlinked_approach_not_serialized:
  assumes "CloseApproach_init sf cd info = Inr ca"
  shows "write_to_csv rf [ca] = ([fieldnames], Some AttributeError)"
    and "write_to_json rf dts [ca] = Inl AttributeError"
proof -
  from assms have "neo ca = None"
    by (auto simp: CloseApproach_init_def split: option.splits sum.splits)
  then show "write_to_csv rf [ca] = ([fieldnames], Some AttributeError)"
    and "write_to_json rf dts [ca] = Inl AttributeError"
    by (simp_all add: write_to_csv_def writerow_header write_to_json_def)
qed

text \<open>
  Claim C1. An approach whose designation matches no object is one that no
  object has been assigned to: the constructor leaves \<open>neo\<close> at \<^verbatim>\<open>None\<close>, and none
  of the three modules puts a sentinel object in its place. On such an approach serialization does not succeed: \<^verbatim>\<open>write_to_csv\<close>
  writes the header row and then raises \<^verbatim>\<open>AttributeError\<close> at
  \<^verbatim>\<open>closeApproach.neo.designation\<close>, and \<^verbatim>\<open>write_to_json\<close> raises \<^verbatim>\<open>AttributeError\<close>
  before anything is dumped, so no placeholder values are produced. This holds
  whatever the two helpers and the float conversions do.
\<close>

theorem unresolved_approach_raises:
  "CloseApproach_init sf cd
       [''designation'' \<mapsto> PStr ''99999'', ''time'' \<mapsto> PStr '''',
        ''distance'' \<mapsto> PStr '''', ''velocity'' \<mapsto> PStr '''']
     = Inr \<lparr>designation' = PStr ''99999'', time = None, distance = Fin 0,
            velocity = Fin 0, neo = None\<rparr>
   \<and> write_to_csv rf
        [\<lparr>designation' = PStr ''99999'', time = None, distance = Fin 0,
          velocity = Fin 0, neo = None\<rparr>]
     = ([fieldnames], Some AttributeError)
   \<and> write_to_json rf dts
        [\<lparr>designation' = PStr ''99999'', time = None, distance = Fin 0,
          velocity = Fin 0, neo = None\<rparr>]
     = Inl AttributeError"
  by (simp add: CloseApproach_init_def write_to_csv_def writerow_header write_to_json_def)

end
